theory Spec2Isabelle
  imports Main "HOL-Library.Word"
begin

section \<open>The start command of the indexer (cmd/start.go)\<close>

text \<open>
  The start command wires the indexer together: it reads its configuration, opens the
  storage DB, builds one event manager, the fetcher and the JSON-RPC service, and waits
  for both services. Every collaborator (zap, storage, events, client, fetch, serve, the
  waiter) lives outside this file, so the model records each call to a collaborator in a
  trace, in the order in which Go evaluates them, and takes the outcome of every call
  that can fail from an environment.
\<close>

subsection \<open>Values\<close>

text \<open>Go's \<open>int64\<close>, and \<open>int\<close> on a 64-bit platform; \<open>sint\<close> reads the signed value.\<close>

type_synonym int64 = "64 word"
type_synonym go_int = "64 word"

text \<open>Objects built by the collaborators are known by their reference only.\<close>

type_synonym ref = nat
type_synonym go_context = nat

text \<open>
  Go \<open>error\<close> values: an error of a collaborator, \<open>fmt.Errorf(prefix + "%w", err)\<close>
  and the result of \<open>errors.Join\<close>. A nil error is \<open>None\<close>.
\<close>

datatype error =
    Err string
  | Errorf string error
  | joinError "error list"

fun Unwrap :: "error \<Rightarrow> error option" where
  "Unwrap (Errorf prefix err) = Some err"
| "Unwrap (Err m) = None"
| "Unwrap (joinError errs) = None"

text \<open>\<open>errors.Join\<close> discards nil errors and returns nil when none is left.\<close>

definition errors_Join :: "error option list \<Rightarrow> error option" where
  "errors_Join errs =
     (case List.map_filter id errs of
        [] \<Rightarrow> None
      | e # es \<Rightarrow> Some (joinError (e # es)))"

text \<open>The levels of zapcore.\<close>

datatype level =
  DebugLevel | InfoLevel | WarnLevel | ErrorLevel | DPanicLevel | PanicLevel | FatalLevel

subsection \<open>The interfaces of package fetch\<close>

text \<open>
  An interface declaration is the list of its methods, each with the types of its
  parameters and of its results.
\<close>

datatype go_type = T_int64 | T_error | T_ptr string

type_synonym method_sig = "string \<times> go_type list \<times> go_type list"
type_synonym interface = "method_sig list"

definition Storage :: interface where
  "Storage =
     [(''GetLatestHeight'', [], [T_int64, T_error]),
      (''SaveBlock'', [T_ptr ''types.Block''], [T_error]),
      (''SaveTx'', [T_ptr ''types.TxResult''], [T_error])]"

definition Client :: interface where
  "Client =
     [(''GetLatestBlockNumber'', [], [T_int64, T_error]),
      (''GetBlock'', [T_int64], [T_ptr ''core_types.ResultBlock'', T_error]),
      (''GetBlockResults'', [T_int64], [T_ptr ''core_types.ResultBlockResults'', T_error])]"

definition method_names :: "interface \<Rightarrow> string list" where
  "method_names i = map fst i"

definition signature :: "interface \<Rightarrow> string \<Rightarrow> (go_type list \<times> go_type list) option" where
  "signature i = map_of i"

subsection \<open>The configuration\<close>

record startCfg =
  listenAddress :: string
  remote :: string
  dbPath :: string
  logLevel :: string
  maxSlots :: go_int
  maxChunkSize :: int64

definition defaultRemote :: string where
  "defaultRemote = ''http://127.0.0.1:26657''"

definition defaultDBPath :: string where
  "defaultDBPath = ''indexer-db''"

subsection \<open>The environment\<close>

text \<open>
  What the collaborators answer. The constants of packages fetch, serve and zap that
  \<open>registerFlags\<close> uses are not part of this file, and neither is the number parser of
  package flag; they are parameters. An answer \<open>None\<close> of a call that returns an error
  is a nil error.
\<close>

record env =
  serve_DefaultListenAddress :: string
  zap_InfoLevel_String :: string
  fetch_DefaultMaxSlots :: go_int
  fetch_DefaultMaxChunkSize :: int64
  ParseInt :: "string \<Rightarrow> 64 word option"
  ParseAtomicLevel :: "string \<Rightarrow> error + level"
  Build :: "level \<Rightarrow> error option"
  NewPebble :: "string \<Rightarrow> error option"
  Close :: "error option"
  wait :: "error option"
  Sync :: "error option"

subsection \<open>Calls to the collaborators\<close>

datatype fetch_Option =
    fetch_WithLogger ref
  | fetch_WithMaxSlots go_int
  | fetch_WithMaxChunkSize int64

datatype serve_Option =
    serve_WithLogger ref
  | serve_WithListenAddress string

text \<open>The method values \<open>f.FetchChainData\<close> and \<open>j.Serve\<close>.\<close>

datatype service = FetchChainData ref | Serve ref

text \<open>
  One constructor for each call; a call that builds an object carries the reference of
  the object as its last argument (\<open>None\<close> when the call failed).
\<close>

datatype action =
    zap_ParseAtomicLevel string
  | zap_NewDevelopmentConfig
  | Config_Build level "ref option"
  | storage_NewPebble string "ref option"
  | events_NewManager ref
  | client_NewClient string ref
  | Logger_Named ref string ref
  | fetch_New ref ref ref "fetch_Option list" ref
  | serve_NewJSONRPC ref "serve_Option list" ref
  | RegisterTxEndpoints ref ref
  | RegisterBlockEndpoints ref ref
  | RegisterSubEndpoints ref ref
  | newWaiter go_context ref
  | waiter_add ref service
  | waiter_wait ref
  | Logger_Sync ref
  | Pebble_Close ref
  | Logger_Error ref string error

text \<open>
  The state of a run: the \<open>startCfg\<close> object the receiver points to, the next unused
  reference, and the calls made so far.
\<close>

record st =
  recv :: startCfg
  next_ref :: nat
  trace :: "action list"

definition init :: "startCfg \<Rightarrow> st" where
  "init c = \<lparr>recv = c, next_ref = 0, trace = []\<rparr>"

definition alloc :: "st \<Rightarrow> ref \<times> st" where
  "alloc s = (next_ref s, s\<lparr>next_ref := Suc (next_ref s)\<rparr>)"

definition emit :: "action \<Rightarrow> st \<Rightarrow> st" where
  "emit a s = s\<lparr>trace := trace s @ [a]\<rparr>"

text \<open>A constructor of a collaborator: a fresh object, and the call in the trace.\<close>

definition construct :: "(ref \<Rightarrow> action) \<Rightarrow> st \<Rightarrow> ref \<times> st" where
  "construct call s = (case alloc s of (r, s') \<Rightarrow> (r, emit (call r) s'))"

subsection \<open>setupJSONRPC\<close>

definition setupJSONRPC :: "string \<Rightarrow> ref \<Rightarrow> ref \<Rightarrow> ref \<Rightarrow> st \<Rightarrow> ref \<times> st" where
  "setupJSONRPC listenAddr db em logger s =
     (let (l, s) = construct (Logger_Named logger ''json-rpc'') s;
          (j, s) = construct
                     (serve_NewJSONRPC em
                        [serve_WithLogger l, serve_WithListenAddress listenAddr]) s;
          s = emit (RegisterTxEndpoints j db) s;
          s = emit (RegisterBlockEndpoints j db) s;
          s = emit (RegisterSubEndpoints j db) s
      in (j, s))"

subsection \<open>exec\<close>

text \<open>
  The deferred function of \<open>exec\<close>: it runs once the return value has been computed,
  and only logs.
\<close>

definition deferred_close :: "env \<Rightarrow> ref \<Rightarrow> ref \<Rightarrow> st \<Rightarrow> st" where
  "deferred_close e db logger s =
     (case Close e of
        None \<Rightarrow> emit (Pebble_Close db) s
      | Some err \<Rightarrow>
          emit (Logger_Error logger ''unable to gracefully close DB'' err)
            (emit (Pebble_Close db) s))"

definition exec :: "env \<Rightarrow> go_context \<Rightarrow> st \<Rightarrow> error option \<times> st" where
  "exec e ctx s =
     (let s = emit (zap_ParseAtomicLevel (logLevel (recv s))) s in
      case ParseAtomicLevel e (logLevel (recv s)) of
        Inl err \<Rightarrow> (Some (Errorf ''unable to parse log level, '' err), s)
      | Inr lvl \<Rightarrow>
         (let s = emit zap_NewDevelopmentConfig s in
          case Build e lvl of
            Some err \<Rightarrow>
              (Some (Errorf ''unable to create logger, '' err),
               emit (Config_Build lvl None) s)
          | None \<Rightarrow>
             (let (logger, s) = construct (\<lambda>r. Config_Build lvl (Some r)) s in
              case NewPebble e (dbPath (recv s)) of
                Some err \<Rightarrow>
                  (Some (Errorf ''unable to open storage DB, '' err),
                   emit (storage_NewPebble (dbPath (recv s)) None) s)
              | None \<Rightarrow>
                 (let (db, s) = construct (\<lambda>r. storage_NewPebble (dbPath (recv s)) (Some r)) s;
                      (em, s) = construct events_NewManager s;
                      (cl, s) = construct (client_NewClient (remote (recv s))) s;
                      (fl, s) = construct (Logger_Named logger ''fetcher'') s;
                      (f, s) = construct
                                 (fetch_New db cl em
                                    [fetch_WithLogger fl,
                                     fetch_WithMaxSlots (maxSlots (recv s)),
                                     fetch_WithMaxChunkSize (maxChunkSize (recv s))]) s;
                      (j, s) = setupJSONRPC (listenAddress (recv s)) db em logger s;
                      (w, s) = construct (newWaiter ctx) s;
                      s = emit (waiter_add w (FetchChainData f)) s;
                      s = emit (waiter_add w (Serve j)) s;
                      s = emit (waiter_wait w) s;
                      s = emit (Logger_Sync logger) s
                  in (errors_Join [wait e, Sync e], deferred_close e db logger s)))))"

subsection \<open>The flags and the command\<close>

text \<open>
  A flag set is the list of the registered flags: the name of a flag and what setting it
  to a string does to the configuration (\<open>None\<close> when the string is not a value of the
  flag's type). The first argument of \<open>StringVar\<close>, \<open>IntVar\<close> and \<open>Int64Var\<close> stands for the
  pointer to the field: it stores a value in the field. Registering a flag stores its
  default at once.
\<close>

type_synonym FlagSet = "(string \<times> (string \<Rightarrow> startCfg \<Rightarrow> startCfg option)) list"

definition StringVar ::
  "(string \<Rightarrow> startCfg \<Rightarrow> startCfg) \<Rightarrow> string \<Rightarrow> string \<Rightarrow> string
     \<Rightarrow> startCfg \<times> FlagSet \<Rightarrow> startCfg \<times> FlagSet" where
  "StringVar p name val usage cf =
     (case cf of (c, fs) \<Rightarrow> (p val c, fs @ [(name, \<lambda>v c. Some (p v c))]))"

definition IntVar ::
  "env \<Rightarrow> (go_int \<Rightarrow> startCfg \<Rightarrow> startCfg) \<Rightarrow> string \<Rightarrow> go_int \<Rightarrow> string
     \<Rightarrow> startCfg \<times> FlagSet \<Rightarrow> startCfg \<times> FlagSet" where
  "IntVar e p name val usage cf =
     (case cf of (c, fs) \<Rightarrow>
        (p val c, fs @ [(name, \<lambda>v c. map_option (\<lambda>n. p n c) (ParseInt e v))]))"

definition Int64Var ::
  "env \<Rightarrow> (int64 \<Rightarrow> startCfg \<Rightarrow> startCfg) \<Rightarrow> string \<Rightarrow> int64 \<Rightarrow> string
     \<Rightarrow> startCfg \<times> FlagSet \<Rightarrow> startCfg \<times> FlagSet" where
  "Int64Var e p name val usage cf =
     (case cf of (c, fs) \<Rightarrow>
        (p val c, fs @ [(name, \<lambda>v c. map_option (\<lambda>n. p n c) (ParseInt e v))]))"

definition registerFlags :: "env \<Rightarrow> startCfg \<times> FlagSet \<Rightarrow> startCfg \<times> FlagSet" where
  "registerFlags e cf =
     (let cf = StringVar (\<lambda>v c. c\<lparr>listenAddress := v\<rparr>) ''listen-address''
                 (serve_DefaultListenAddress e)
                 ''the IP:PORT URL for the indexer JSON-RPC server'' cf;
          cf = StringVar (\<lambda>v c. c\<lparr>remote := v\<rparr>) ''remote''
                 defaultRemote
                 ''the JSON-RPC URL of the Gno chain'' cf;
          cf = StringVar (\<lambda>v c. c\<lparr>dbPath := v\<rparr>) ''db-path''
                 defaultDBPath
                 ''the absolute path for the indexer DB (embedded)'' cf;
          cf = StringVar (\<lambda>v c. c\<lparr>logLevel := v\<rparr>) ''log-level''
                 (zap_InfoLevel_String e)
                 ''the log level for the CLI output'' cf;
          cf = IntVar e (\<lambda>v c. c\<lparr>maxSlots := v\<rparr>) ''max-slots''
                 (fetch_DefaultMaxSlots e)
                 ''the amount of slots (workers) the fetcher employs'' cf;
          cf = Int64Var e (\<lambda>v c. c\<lparr>maxChunkSize := v\<rparr>) ''max-chunk-size''
                 (fetch_DefaultMaxChunkSize e)
                 ''the range for fetching blockchain data by a single worker'' cf
      in cf)"

text \<open>
  Parsing the command line, given as the pairs of a flag's name and its value, in the
  order of the command line. An unknown flag or an ill-typed value ends the process
  (the flag set is created with \<open>flag.ExitOnError\<close>): the result is \<open>None\<close>.
\<close>

fun Parse :: "FlagSet \<Rightarrow> (string \<times> string) list \<Rightarrow> startCfg \<Rightarrow> startCfg option" where
  "Parse fs [] c = Some c"
| "Parse fs ((name, v) # args) c =
     (case map_of fs name of
        None \<Rightarrow> None
      | Some setter \<Rightarrow>
          (case setter v c of
             None \<Rightarrow> None
           | Some c' \<Rightarrow> Parse fs args c'))"

text \<open>\<open>&startCfg{}\<close>: every field has the zero value of its type.\<close>

definition zero_startCfg :: startCfg where
  "zero_startCfg =
     \<lparr>listenAddress = [], remote = [], dbPath = [], logLevel = [],
      maxSlots = 0, maxChunkSize = 0\<rparr>"

text \<open>
  The configuration the command runs \<open>exec\<close> with: \<open>newStartCmd\<close> registers the flags on a
  zero configuration, and the command parses its flag set before it calls \<open>Exec\<close>.
\<close>

definition parsed_cfg :: "env \<Rightarrow> (string \<times> string) list \<Rightarrow> startCfg option" where
  "parsed_cfg e args =
     (case registerFlags e (zero_startCfg, []) of (c, fs) \<Rightarrow> Parse fs args c)"

definition newStartCmd ::
  "env \<Rightarrow> go_context \<Rightarrow> (string \<times> string) list \<Rightarrow> (error option \<times> st) option" where
  "newStartCmd e ctx args = map_option (\<lambda>c. exec e ctx (init c)) (parsed_cfg e args)"

subsection \<open>Reading a trace\<close>

text \<open>
  What a trace says about the objects built and handed on. Each function keeps the order
  of the calls.
\<close>

fun opened_db :: "action \<Rightarrow> ref option" where
  "opened_db (storage_NewPebble path (Some db)) = Some db"
| "opened_db _ = None"

fun built_manager :: "action \<Rightarrow> ref option" where
  "built_manager (events_NewManager em) = Some em"
| "built_manager _ = None"

fun built_client :: "action \<Rightarrow> (string \<times> ref) option" where
  "built_client (client_NewClient url cl) = Some (url, cl)"
| "built_client _ = None"

fun fetch_New_call :: "action \<Rightarrow> (ref \<times> ref \<times> ref \<times> fetch_Option list) option" where
  "fetch_New_call (fetch_New db cl em opts f) = Some (db, cl, em, opts)"
| "fetch_New_call _ = None"

fun fetcher_manager :: "action \<Rightarrow> ref option" where
  "fetcher_manager (fetch_New db cl em opts f) = Some em"
| "fetcher_manager _ = None"

fun jsonrpc_manager :: "action \<Rightarrow> ref option" where
  "jsonrpc_manager (serve_NewJSONRPC em opts j) = Some em"
| "jsonrpc_manager _ = None"

fun max_slots_option :: "fetch_Option \<Rightarrow> go_int option" where
  "max_slots_option (fetch_WithMaxSlots n) = Some n"
| "max_slots_option _ = None"

fun max_chunk_size_option :: "fetch_Option \<Rightarrow> int64 option" where
  "max_chunk_size_option (fetch_WithMaxChunkSize n) = Some n"
| "max_chunk_size_option _ = None"

fun listen_address_option :: "serve_Option \<Rightarrow> string option" where
  "listen_address_option (serve_WithListenAddress a) = Some a"
| "listen_address_option _ = None"

fun serve_options :: "action \<Rightarrow> serve_Option list" where
  "serve_options (serve_NewJSONRPC em opts j) = opts"
| "serve_options _ = []"

fun waiter_call :: "action \<Rightarrow> bool" where
  "waiter_call (newWaiter ctx w) = True"
| "waiter_call (waiter_add w srv) = True"
| "waiter_call (waiter_wait w) = True"
| "waiter_call _ = False"

fun built_service :: "action \<Rightarrow> service option" where
  "built_service (fetch_New db cl em opts f) = Some (FetchChainData f)"
| "built_service (serve_NewJSONRPC em opts j) = Some (Serve j)"
| "built_service _ = None"

fun closed_db :: "action \<Rightarrow> ref option" where
  "closed_db (Pebble_Close db) = Some db"
| "closed_db _ = None"

fun logged_error :: "action \<Rightarrow> (string \<times> error) option" where
  "logged_error (Logger_Error l msg err) = Some (msg, err)"
| "logged_error _ = None"

definition opened_dbs :: "action list \<Rightarrow> ref list" where
  "opened_dbs tr = List.map_filter opened_db tr"

definition managers :: "action list \<Rightarrow> ref list" where
  "managers tr = List.map_filter built_manager tr"

definition fetcher_managers :: "action list \<Rightarrow> ref list" where
  "fetcher_managers tr = List.map_filter fetcher_manager tr"

definition jsonrpc_managers :: "action list \<Rightarrow> ref list" where
  "jsonrpc_managers tr = List.map_filter jsonrpc_manager tr"

definition clients :: "action list \<Rightarrow> (string \<times> ref) list" where
  "clients tr = List.map_filter built_client tr"

definition fetch_New_calls :: "action list \<Rightarrow> (ref \<times> ref \<times> ref \<times> fetch_Option list) list" where
  "fetch_New_calls tr = List.map_filter fetch_New_call tr"

definition storages_injected :: "action list \<Rightarrow> ref list" where
  "storages_injected tr = map (\<lambda>(db, cl, em, opts). db) (fetch_New_calls tr)"

definition clients_injected :: "action list \<Rightarrow> ref list" where
  "clients_injected tr = map (\<lambda>(db, cl, em, opts). cl) (fetch_New_calls tr)"

definition max_slots_passed :: "action list \<Rightarrow> go_int list" where
  "max_slots_passed tr =
     concat (map (\<lambda>(db, cl, em, opts). List.map_filter max_slots_option opts)
       (fetch_New_calls tr))"

definition max_chunk_sizes_passed :: "action list \<Rightarrow> int64 list" where
  "max_chunk_sizes_passed tr =
     concat (map (\<lambda>(db, cl, em, opts). List.map_filter max_chunk_size_option opts)
       (fetch_New_calls tr))"

definition listen_addresses_passed :: "action list \<Rightarrow> string list" where
  "listen_addresses_passed tr =
     concat (map (\<lambda>a. List.map_filter listen_address_option (serve_options a)) tr)"

definition waiter_calls :: "action list \<Rightarrow> action list" where
  "waiter_calls tr = filter waiter_call tr"

definition services :: "action list \<Rightarrow> service list" where
  "services tr = List.map_filter built_service tr"

definition closed_dbs :: "action list \<Rightarrow> ref list" where
  "closed_dbs tr = List.map_filter closed_db tr"

definition logged_errors :: "action list \<Rightarrow> (string \<times> error) list" where
  "logged_errors tr = List.map_filter logged_error tr"

text \<open>
  None of the three early returns of \<open>exec\<close> is taken: the log level parses, the logger
  is built and the DB opens.
\<close>

definition reaches_construction :: "env \<Rightarrow> startCfg \<Rightarrow> bool" where
  "reaches_construction e c =
     (case ParseAtomicLevel e (logLevel c) of
        Inl err \<Rightarrow> False
      | Inr lvl \<Rightarrow> Build e lvl = None \<and> NewPebble e (dbPath c) = None)"

subsection \<open>A sample environment\<close>

text \<open>
  An environment for concrete runs: the level names of zap, signed decimal numerals, the
  defaults 100 and 100, a logger and a DB that are always available, a \<open>Close\<close> that
  fails, a waiter that ends with an error and a \<open>Sync\<close> that succeeds.
\<close>

definition sample_ParseAtomicLevel :: "string \<Rightarrow> error + level" where
  "sample_ParseAtomicLevel s =
     (if s = ''debug'' then Inr DebugLevel
      else if s = ''info'' then Inr InfoLevel
      else if s = ''warn'' then Inr WarnLevel
      else if s = ''error'' then Inr ErrorLevel
      else Inl (Err ''unrecognized level''))"

definition digit :: "char \<Rightarrow> nat option" where
  "digit =
     map_of
       [(CHR ''0'', 0), (CHR ''1'', 1), (CHR ''2'', 2), (CHR ''3'', 3), (CHR ''4'', 4),
        (CHR ''5'', 5), (CHR ''6'', 6), (CHR ''7'', 7), (CHR ''8'', 8), (CHR ''9'', 9)]"

fun decimal :: "nat \<Rightarrow> string \<Rightarrow> nat option" where
  "decimal acc [] = Some acc"
| "decimal acc (c # cs) =
     (case digit c of None \<Rightarrow> None | Some d \<Rightarrow> decimal (10 * acc + d) cs)"

definition sample_ParseInt :: "string \<Rightarrow> 64 word option" where
  "sample_ParseInt s =
     (case s of
        [] \<Rightarrow> None
      | c # cs \<Rightarrow>
          if c = CHR ''-'' then
            (case cs of
               [] \<Rightarrow> None
             | d # ds \<Rightarrow>
                 (case decimal 0 cs of
                    None \<Rightarrow> None
                  | Some n \<Rightarrow> if n \<le> 2 ^ 63 then Some (- of_nat n) else None))
          else
            (case decimal 0 s of
               None \<Rightarrow> None
             | Some n \<Rightarrow> if n < 2 ^ 63 then Some (of_nat n) else None))"

definition sample_env :: env where
  "sample_env =
     \<lparr>serve_DefaultListenAddress = ''0.0.0.0:8546'',
      zap_InfoLevel_String = ''info'',
      fetch_DefaultMaxSlots = 100,
      fetch_DefaultMaxChunkSize = 100,
      ParseInt = sample_ParseInt,
      ParseAtomicLevel = sample_ParseAtomicLevel,
      Build = (\<lambda>lvl. None),
      NewPebble = (\<lambda>path. None),
      Close = Some (Err ''pebble: closed''),
      wait = Some (Err ''context canceled''),
      Sync = None\<rparr>"

definition sample_cfg :: startCfg where
  "sample_cfg =
     \<lparr>listenAddress = ''0.0.0.0:8546'', remote = ''http://127.0.0.1:26657'',
      dbPath = ''indexer-db'', logLevel = ''info'', maxSlots = 100, maxChunkSize = 100\<rparr>"

section \<open>Properties\<close>

subsection \<open>What a run does, call by call\<close>

lemma construct_eq:
  "construct call \<lparr>recv = c, next_ref = n, trace = tr\<rparr> =
     (n, \<lparr>recv = c, next_ref = Suc n, trace = tr @ [call n]\<rparr>)"
  by (simp add: construct_def alloc_def emit_def)

lemma emit_eq:
  "emit a \<lparr>recv = c, next_ref = n, trace = tr\<rparr> = \<lparr>recv = c, next_ref = n, trace = tr @ [a]\<rparr>"
  by (simp add: emit_def)

lemma setupJSONRPC_eq:
  "setupJSONRPC la db em logger \<lparr>recv = c, next_ref = n, trace = tr\<rparr> =
     (Suc n,
      \<lparr>recv = c, next_ref = Suc (Suc n),
        trace = tr @
          [Logger_Named logger ''json-rpc'' n,
           serve_NewJSONRPC em [serve_WithLogger n, serve_WithListenAddress la] (Suc n),
           RegisterTxEndpoints (Suc n) db,
           RegisterBlockEndpoints (Suc n) db,
           RegisterSubEndpoints (Suc n) db]\<rparr>)"
  by (simp add: setupJSONRPC_def construct_eq emit_eq)

lemma deferred_close_eq:
  "deferred_close e db logger \<lparr>recv = c, next_ref = n, trace = tr\<rparr> =
     \<lparr>recv = c, next_ref = n,
      trace = tr @ Pebble_Close db #
        (case Close e of None \<Rightarrow> []
         | Some err \<Rightarrow> [Logger_Error logger ''unable to gracefully close DB'' err])\<rparr>"
  by (simp add: deferred_close_def emit_eq split: option.split)

lemma exec_parse_fails:
  assumes "ParseAtomicLevel e (logLevel c) = Inl err"
  shows "exec e ctx (init c) =
     (Some (Errorf ''unable to parse log level, '' err),
      \<lparr>recv = c, next_ref = 0, trace = [zap_ParseAtomicLevel (logLevel c)]\<rparr>)"
  using assms by (simp add: exec_def init_def emit_eq)

lemma exec_build_fails:
  assumes "ParseAtomicLevel e (logLevel c) = Inr lvl" and "Build e lvl = Some err"
  shows "exec e ctx (init c) =
     (Some (Errorf ''unable to create logger, '' err),
      \<lparr>recv = c, next_ref = 0,
       trace = [zap_ParseAtomicLevel (logLevel c), zap_NewDevelopmentConfig,
                Config_Build lvl None]\<rparr>)"
  using assms by (simp add: exec_def init_def emit_eq)

lemma exec_open_fails:
  assumes "ParseAtomicLevel e (logLevel c) = Inr lvl" and "Build e lvl = None"
    and "NewPebble e (dbPath c) = Some err"
  shows "exec e ctx (init c) =
     (Some (Errorf ''unable to open storage DB, '' err),
      \<lparr>recv = c, next_ref = 1,
       trace = [zap_ParseAtomicLevel (logLevel c), zap_NewDevelopmentConfig,
                Config_Build lvl (Some 0), storage_NewPebble (dbPath c) None]\<rparr>)"
  using assms by (simp add: exec_def init_def emit_eq construct_eq)

lemma exec_constructs:
  assumes "ParseAtomicLevel e (logLevel c) = Inr lvl" and "Build e lvl = None"
    and "NewPebble e (dbPath c) = None"
  shows "exec e ctx (init c) =
     (errors_Join [wait e, Sync e],
      \<lparr>recv = c, next_ref = 9,
       trace =
         [zap_ParseAtomicLevel (logLevel c),
          zap_NewDevelopmentConfig,
          Config_Build lvl (Some 0),
          storage_NewPebble (dbPath c) (Some 1),
          events_NewManager 2,
          client_NewClient (remote c) 3,
          Logger_Named 0 ''fetcher'' 4,
          fetch_New 1 3 2
            [fetch_WithLogger 4, fetch_WithMaxSlots (maxSlots c),
             fetch_WithMaxChunkSize (maxChunkSize c)] 5,
          Logger_Named 0 ''json-rpc'' 6,
          serve_NewJSONRPC 2
            [serve_WithLogger 6, serve_WithListenAddress (listenAddress c)] 7,
          RegisterTxEndpoints 7 1,
          RegisterBlockEndpoints 7 1,
          RegisterSubEndpoints 7 1,
          newWaiter ctx 8,
          waiter_add 8 (FetchChainData 5),
          waiter_add 8 (Serve 7),
          waiter_wait 8,
          Logger_Sync 0,
          Pebble_Close 1] @
         (case Close e of None \<Rightarrow> []
          | Some err \<Rightarrow> [Logger_Error 0 ''unable to gracefully close DB'' err])\<rparr>)"
  using assms
  by (simp add: exec_def init_def construct_eq emit_eq setupJSONRPC_eq deferred_close_eq
      eval_nat_numeral)

text \<open>
  A run either stops at one of the three early returns, before anything but the logger
  is built, or it goes through the whole construction; the two lemmas below read the
  trace of either kind of run.
\<close>

lemmas trace_readers =
  opened_dbs_def managers_def fetcher_managers_def jsonrpc_managers_def clients_def
  fetch_New_calls_def storages_injected_def clients_injected_def max_slots_passed_def
  max_chunk_sizes_passed_def listen_addresses_passed_def waiter_calls_def services_def
  closed_dbs_def logged_errors_def

lemma exec_reaches:
  assumes "reaches_construction e c"
  shows "\<exists>lvl. exec e ctx (init c) =
     (errors_Join [wait e, Sync e],
      \<lparr>recv = c, next_ref = 9,
       trace =
         [zap_ParseAtomicLevel (logLevel c),
          zap_NewDevelopmentConfig,
          Config_Build lvl (Some 0),
          storage_NewPebble (dbPath c) (Some 1),
          events_NewManager 2,
          client_NewClient (remote c) 3,
          Logger_Named 0 ''fetcher'' 4,
          fetch_New 1 3 2
            [fetch_WithLogger 4, fetch_WithMaxSlots (maxSlots c),
             fetch_WithMaxChunkSize (maxChunkSize c)] 5,
          Logger_Named 0 ''json-rpc'' 6,
          serve_NewJSONRPC 2
            [serve_WithLogger 6, serve_WithListenAddress (listenAddress c)] 7,
          RegisterTxEndpoints 7 1,
          RegisterBlockEndpoints 7 1,
          RegisterSubEndpoints 7 1,
          newWaiter ctx 8,
          waiter_add 8 (FetchChainData 5),
          waiter_add 8 (Serve 7),
          waiter_wait 8,
          Logger_Sync 0,
          Pebble_Close 1] @
         (case Close e of None \<Rightarrow> []
          | Some err \<Rightarrow> [Logger_Error 0 ''unable to gracefully close DB'' err])\<rparr>)"
proof -
  from assms obtain lvl where "ParseAtomicLevel e (logLevel c) = Inr lvl"
    and "Build e lvl = None" and "NewPebble e (dbPath c) = None"
    by (auto simp: reaches_construction_def split: sum.splits)
  then show ?thesis
    using exec_constructs [of e c lvl ctx] by blast
qed

lemma reaches_observed:
  assumes "reaches_construction e c"
  shows "fst (exec e ctx (init c)) = errors_Join [wait e, Sync e]"
    and "recv (snd (exec e ctx (init c))) = c"
    and "opened_dbs (trace (snd (exec e ctx (init c)))) = [1]"
    and "closed_dbs (trace (snd (exec e ctx (init c)))) = [1]"
    and "managers (trace (snd (exec e ctx (init c)))) = [2]"
    and "fetcher_managers (trace (snd (exec e ctx (init c)))) = [2]"
    and "jsonrpc_managers (trace (snd (exec e ctx (init c)))) = [2]"
    and "clients (trace (snd (exec e ctx (init c)))) = [(remote c, 3)]"
    and "storages_injected (trace (snd (exec e ctx (init c)))) = [1]"
    and "clients_injected (trace (snd (exec e ctx (init c)))) = [3]"
    and "max_slots_passed (trace (snd (exec e ctx (init c)))) = [maxSlots c]"
    and "max_chunk_sizes_passed (trace (snd (exec e ctx (init c)))) = [maxChunkSize c]"
    and "listen_addresses_passed (trace (snd (exec e ctx (init c)))) = [listenAddress c]"
    and "services (trace (snd (exec e ctx (init c)))) = [FetchChainData 5, Serve 7]"
    and "waiter_calls (trace (snd (exec e ctx (init c)))) =
           [newWaiter ctx 8, waiter_add 8 (FetchChainData 5), waiter_add 8 (Serve 7),
            waiter_wait 8]"
    and "logged_errors (trace (snd (exec e ctx (init c)))) =
           (case Close e of None \<Rightarrow> []
            | Some err \<Rightarrow> [(''unable to gracefully close DB'', err)])"
  using exec_reaches [OF assms, of ctx]
  by (auto simp: trace_readers split: option.split)

lemma stops_early:
  assumes "\<not> reaches_construction e c"
  shows "\<exists>err. fst (exec e ctx (init c)) = Some err"
    and "recv (snd (exec e ctx (init c))) = c"
    and "opened_dbs (trace (snd (exec e ctx (init c)))) = []"
    and "closed_dbs (trace (snd (exec e ctx (init c)))) = []"
    and "managers (trace (snd (exec e ctx (init c)))) = []"
    and "fetcher_managers (trace (snd (exec e ctx (init c)))) = []"
    and "jsonrpc_managers (trace (snd (exec e ctx (init c)))) = []"
    and "clients (trace (snd (exec e ctx (init c)))) = []"
    and "max_slots_passed (trace (snd (exec e ctx (init c)))) = []"
    and "max_chunk_sizes_passed (trace (snd (exec e ctx (init c)))) = []"
    and "listen_addresses_passed (trace (snd (exec e ctx (init c)))) = []"
    and "services (trace (snd (exec e ctx (init c)))) = []"
    and "waiter_calls (trace (snd (exec e ctx (init c)))) = []"
proof -
  have "\<exists>err n tr. exec e ctx (init c) = (Some err, \<lparr>recv = c, next_ref = n, trace = tr\<rparr>)
      \<and> set tr \<subseteq> {zap_ParseAtomicLevel (logLevel c), zap_NewDevelopmentConfig}
              \<union> range (\<lambda>lvl. Config_Build lvl None) \<union> range (\<lambda>lvl. Config_Build lvl (Some 0))
              \<union> {storage_NewPebble (dbPath c) None}"
  proof (cases "ParseAtomicLevel e (logLevel c)")
    case (Inl err)
    then show ?thesis using exec_parse_fails [of e c err ctx] by auto
  next
    case (Inr lvl)
    show ?thesis
    proof (cases "Build e lvl")
      case (Some err)
      with Inr show ?thesis using exec_build_fails [of e c lvl err ctx] by auto
    next
      case None
      with Inr assms obtain err where "NewPebble e (dbPath c) = Some err"
        by (auto simp: reaches_construction_def)
      with Inr None show ?thesis using exec_open_fails [of e c lvl err ctx] by auto
    qed
  qed
  then obtain err n tr where ex: "exec e ctx (init c) = (Some err, \<lparr>recv = c, next_ref = n, trace = tr\<rparr>)"
    and tr: "set tr \<subseteq> {zap_ParseAtomicLevel (logLevel c), zap_NewDevelopmentConfig}
              \<union> range (\<lambda>lvl. Config_Build lvl None) \<union> range (\<lambda>lvl. Config_Build lvl (Some 0))
              \<union> {storage_NewPebble (dbPath c) None}"
    by blast
  show "\<exists>err. fst (exec e ctx (init c)) = Some err" using ex by simp
  show "recv (snd (exec e ctx (init c))) = c" using ex by simp
  have none: "\<And>f. (\<And>a. a \<in> set tr \<Longrightarrow> f a = None) \<Longrightarrow> List.map_filter f tr = []"
    by (simp add: List.map_filter_def filter_empty_conv)
  show "opened_dbs (trace (snd (exec e ctx (init c)))) = []"
    unfolding opened_dbs_def using ex tr by (auto intro!: none)
  show "closed_dbs (trace (snd (exec e ctx (init c)))) = []"
    unfolding closed_dbs_def using ex tr by (auto intro!: none)
  show "managers (trace (snd (exec e ctx (init c)))) = []"
    unfolding managers_def using ex tr by (auto intro!: none)
  show "fetcher_managers (trace (snd (exec e ctx (init c)))) = []"
    unfolding fetcher_managers_def using ex tr by (auto intro!: none)
  show "jsonrpc_managers (trace (snd (exec e ctx (init c)))) = []"
    unfolding jsonrpc_managers_def using ex tr by (auto intro!: none)
  show "clients (trace (snd (exec e ctx (init c)))) = []"
    unfolding clients_def using ex tr by (auto intro!: none)
  have calls: "fetch_New_calls tr = []"
    unfolding fetch_New_calls_def using tr by (auto intro!: none)
  show "max_slots_passed (trace (snd (exec e ctx (init c)))) = []"
    using ex calls by (simp add: max_slots_passed_def)
  show "max_chunk_sizes_passed (trace (snd (exec e ctx (init c)))) = []"
    using ex calls by (simp add: max_chunk_sizes_passed_def)
  show "listen_addresses_passed (trace (snd (exec e ctx (init c)))) = []"
    using ex tr by (auto simp: listen_addresses_passed_def)
  show "services (trace (snd (exec e ctx (init c)))) = []"
    unfolding services_def using ex tr by (auto intro!: none)
  show "waiter_calls (trace (snd (exec e ctx (init c)))) = []"
    using ex tr by (auto simp: waiter_calls_def filter_empty_conv)
qed

subsection \<open>setupJSONRPC\<close>

text \<open>
  Claim C10: \<open>setupJSONRPC\<close> always registers the three endpoint groups (transaction,
  block and subscription endpoints) on the one JSONRPC instance it builds, each with the
  storage DB it was given, and returns that instance.
\<close>

theorem setupJSONRPC_registers_all_endpoints:
  "fst (setupJSONRPC listenAddr db em logger s) = Suc (next_ref s) \<and>
   trace (snd (setupJSONRPC listenAddr db em logger s)) =
     trace s @
       [Logger_Named logger ''json-rpc'' (next_ref s),
        serve_NewJSONRPC em
          [serve_WithLogger (next_ref s), serve_WithListenAddress listenAddr]
          (fst (setupJSONRPC listenAddr db em logger s)),
        RegisterTxEndpoints (fst (setupJSONRPC listenAddr db em logger s)) db,
        RegisterBlockEndpoints (fst (setupJSONRPC listenAddr db em logger s)) db,
        RegisterSubEndpoints (fst (setupJSONRPC listenAddr db em logger s)) db]"
  by (cases s) (simp add: setupJSONRPC_eq)

subsection \<open>Runs of the sample environment\<close>

lemma sample_reaches: "reaches_construction sample_env sample_cfg"
  by (simp add: reaches_construction_def sample_env_def sample_cfg_def
      sample_ParseAtomicLevel_def)

lemma sample_parse_fails:
  "ParseAtomicLevel sample_env (logLevel (sample_cfg\<lparr>logLevel := ''verbose''\<rparr>)) =
     Inl (Err ''unrecognized level'')"
  by (simp add: sample_env_def sample_cfg_def sample_ParseAtomicLevel_def)

lemma reaches_construction_Close:
  "reaches_construction (e\<lparr>Close := x\<rparr>) c = reaches_construction e c"
  by (simp add: reaches_construction_def split: sum.split)

subsection \<open>The contracts of the pipeline\<close>

text \<open>
  Claim C1: the Storage contract is an interface with exactly the three methods
  \<open>GetLatestHeight() (int64, error)\<close>, \<open>SaveBlock(block) error\<close> and \<open>SaveTx(tx) error\<close>,
  and a run that builds the pipeline opens one DB and hands that DB to \<open>fetch.New\<close> as its
  storage.
\<close>

theorem storage_contract_injected:
  assumes "reaches_construction e c"
  shows "method_names Storage = [''GetLatestHeight'', ''SaveBlock'', ''SaveTx''] \<and>
    signature Storage ''GetLatestHeight'' = Some ([], [T_int64, T_error]) \<and>
    signature Storage ''SaveBlock'' = Some ([T_ptr ''types.Block''], [T_error]) \<and>
    signature Storage ''SaveTx'' = Some ([T_ptr ''types.TxResult''], [T_error]) \<and>
    length (opened_dbs (trace (snd (exec e ctx (init c))))) = 1 \<and>
    storages_injected (trace (snd (exec e ctx (init c)))) =
      opened_dbs (trace (snd (exec e ctx (init c))))"
  using reaches_observed(3,9) [OF assms, of ctx]
  by (simp add: method_names_def signature_def Storage_def)

theorem storage_contract_injected_witness:
  "reaches_construction sample_env sample_cfg \<and>
   method_names Storage = [''GetLatestHeight'', ''SaveBlock'', ''SaveTx''] \<and>
   storages_injected (trace (snd (exec sample_env 0 (init sample_cfg)))) =
     opened_dbs (trace (snd (exec sample_env 0 (init sample_cfg)))) \<and>
   length (opened_dbs (trace (snd (exec sample_env 0 (init sample_cfg))))) = 1"
  using storage_contract_injected [OF sample_reaches, of 0] sample_reaches by simp

text \<open>
  Claim C2: the Client contract is an interface with exactly the three methods
  \<open>GetLatestBlockNumber() (int64, error)\<close>, \<open>GetBlock(int64)\<close> and \<open>GetBlockResults(int64)\<close>,
  each returning its result and an error, and a run that builds the pipeline builds one
  client from the configured remote and hands that client to \<open>fetch.New\<close>.
\<close>

theorem client_contract_injected:
  assumes "reaches_construction e c"
  shows "method_names Client = [''GetLatestBlockNumber'', ''GetBlock'', ''GetBlockResults''] \<and>
    signature Client ''GetLatestBlockNumber'' = Some ([], [T_int64, T_error]) \<and>
    signature Client ''GetBlock'' =
      Some ([T_int64], [T_ptr ''core_types.ResultBlock'', T_error]) \<and>
    signature Client ''GetBlockResults'' =
      Some ([T_int64], [T_ptr ''core_types.ResultBlockResults'', T_error]) \<and>
    map fst (clients (trace (snd (exec e ctx (init c))))) = [remote c] \<and>
    clients_injected (trace (snd (exec e ctx (init c)))) =
      map snd (clients (trace (snd (exec e ctx (init c)))))"
  using reaches_observed(8,10) [OF assms, of ctx]
  by (simp add: method_names_def signature_def Client_def)

theorem client_contract_injected_witness:
  "reaches_construction sample_env sample_cfg \<and>
   map fst (clients (trace (snd (exec sample_env 0 (init sample_cfg))))) =
     [''http://127.0.0.1:26657''] \<and>
   clients_injected (trace (snd (exec sample_env 0 (init sample_cfg)))) =
     map snd (clients (trace (snd (exec sample_env 0 (init sample_cfg)))))"
  using client_contract_injected [OF sample_reaches, of 0] sample_reaches
  by (simp add: sample_cfg_def)

subsection \<open>One event manager\<close>

text \<open>
  Claim C3 says that every run of \<open>exec\<close> builds exactly one event manager. A run
  that stops at an early return builds none: with a log level that does not parse, no
  manager is built and \<open>exec\<close> returns the wrapped parse error.
\<close>

theorem no_manager_when_log_level_is_bad:
  "managers (trace (snd (exec sample_env 0 (init (sample_cfg\<lparr>logLevel := ''verbose''\<rparr>))))) = []
   \<and> fst (exec sample_env 0 (init (sample_cfg\<lparr>logLevel := ''verbose''\<rparr>))) =
       Some (Errorf ''unable to parse log level, '' (Err ''unrecognized level''))"
  using exec_parse_fails [OF sample_parse_fails, of 0]
  by (simp add: managers_def)

text \<open>
  Claim C3, as amended: a run of \<open>exec\<close> that gets past the log level, the logger and
  the DB builds exactly one event manager, and the fetcher and the JSON-RPC service both
  receive that manager; a run that stops at one of the three early returns builds no
  manager and hands none on.
\<close>

theorem one_manager_shared:
  "if reaches_construction e c
   then length (managers (trace (snd (exec e ctx (init c))))) = 1 \<and>
        fetcher_managers (trace (snd (exec e ctx (init c)))) =
          managers (trace (snd (exec e ctx (init c)))) \<and>
        jsonrpc_managers (trace (snd (exec e ctx (init c)))) =
          managers (trace (snd (exec e ctx (init c))))
   else managers (trace (snd (exec e ctx (init c)))) = [] \<and>
        fetcher_managers (trace (snd (exec e ctx (init c)))) = [] \<and>
        jsonrpc_managers (trace (snd (exec e ctx (init c)))) = []"
  using reaches_observed(5,6,7) [of e c ctx] stops_early(5,6,7) [of e c ctx]
  by (cases "reaches_construction e c") simp_all

theorem one_manager_shared_witness:
  "length (managers (trace (snd (exec sample_env 0 (init sample_cfg))))) = 1 \<and>
   fetcher_managers (trace (snd (exec sample_env 0 (init sample_cfg)))) =
     managers (trace (snd (exec sample_env 0 (init sample_cfg)))) \<and>
   jsonrpc_managers (trace (snd (exec sample_env 0 (init sample_cfg)))) =
     managers (trace (snd (exec sample_env 0 (init sample_cfg))))"
  using one_manager_shared [of sample_env sample_cfg 0] sample_reaches by simp

subsection \<open>Waiting for the services\<close>

text \<open>
  Claim C7 says that \<open>exec\<close> never returns before the waiter has returned. A run that
  stops at an early return has no waiter: with a log level that does not parse,
  \<open>exec\<close> returns the wrapped parse error and the waiter is never called.
\<close>

theorem waiter_not_reached_when_log_level_is_bad:
  "waiter_calls (trace (snd (exec sample_env 0 (init (sample_cfg\<lparr>logLevel := ''verbose''\<rparr>))))) = []
   \<and> fst (exec sample_env 0 (init (sample_cfg\<lparr>logLevel := ''verbose''\<rparr>))) =
       Some (Errorf ''unable to parse log level, '' (Err ''unrecognized level''))"
  using exec_parse_fails [OF sample_parse_fails, of 0]
  by (simp add: waiter_calls_def)

text \<open>
  Claim C7, as amended: a run of \<open>exec\<close> that gets past the log level, the logger and
  the DB adds the fetcher's \<open>FetchChainData\<close> and the JSON-RPC server's \<open>Serve\<close> to one
  waiter, then waits on that waiter, and its return value is the join of the waiter's
  result and the logger's sync error; a run that stops at one of the three early
  returns builds no service, never calls the waiter and returns an error.
\<close>

theorem waits_for_both_services:
  "if reaches_construction e c
   then (\<exists>w f j.
          services (trace (snd (exec e ctx (init c)))) = [FetchChainData f, Serve j] \<and>
          waiter_calls (trace (snd (exec e ctx (init c)))) =
            [newWaiter ctx w, waiter_add w (FetchChainData f), waiter_add w (Serve j),
             waiter_wait w]) \<and>
        fst (exec e ctx (init c)) = errors_Join [wait e, Sync e]
   else services (trace (snd (exec e ctx (init c)))) = [] \<and>
        waiter_calls (trace (snd (exec e ctx (init c)))) = [] \<and>
        fst (exec e ctx (init c)) \<noteq> None"
  using reaches_observed(1,14,15) [of e c ctx] stops_early(1,12,13) [of e c ctx]
  by (cases "reaches_construction e c") auto

theorem waits_for_both_services_witness:
  "(\<exists>w f j.
      services (trace (snd (exec sample_env 0 (init sample_cfg)))) =
        [FetchChainData f, Serve j] \<and>
      waiter_calls (trace (snd (exec sample_env 0 (init sample_cfg)))) =
        [newWaiter 0 w, waiter_add w (FetchChainData f), waiter_add w (Serve j),
         waiter_wait w]) \<and>
   fst (exec sample_env 0 (init sample_cfg)) = Some (joinError [Err ''context canceled''])"
  using waits_for_both_services [of sample_env sample_cfg 0] sample_reaches
  by (simp add: errors_Join_def sample_env_def)

subsection \<open>Errors\<close>

text \<open>
  Claim C8: when the log level does not parse, \<open>exec\<close> returns an error that wraps
  the parse error, and the only call it has made is the parse itself: no DB opened,
  no object built, no service started.
\<close>

theorem log_level_error_stops_before_construction:
  assumes "ParseAtomicLevel e (logLevel c) = Inl err"
  shows "fst (exec e ctx (init c)) = Some (Errorf ''unable to parse log level, '' err) \<and>
    Unwrap (Errorf ''unable to parse log level, '' err) = Some err \<and>
    trace (snd (exec e ctx (init c))) = [zap_ParseAtomicLevel (logLevel c)] \<and>
    next_ref (snd (exec e ctx (init c))) = 0"
  using exec_parse_fails [OF assms, of ctx] by simp

theorem log_level_error_stops_before_construction_witness:
  "ParseAtomicLevel sample_env (logLevel (sample_cfg\<lparr>logLevel := ''verbose''\<rparr>)) =
     Inl (Err ''unrecognized level'') \<and>
   fst (exec sample_env 0 (init (sample_cfg\<lparr>logLevel := ''verbose''\<rparr>))) =
     Some (Errorf ''unable to parse log level, '' (Err ''unrecognized level'')) \<and>
   trace (snd (exec sample_env 0 (init (sample_cfg\<lparr>logLevel := ''verbose''\<rparr>)))) =
     [zap_ParseAtomicLevel ''verbose'']"
  using log_level_error_stops_before_construction [OF sample_parse_fails, of 0]
    sample_parse_fails
  by (simp add: sample_cfg_def)

text \<open>
  Claim C9: when \<open>exec\<close> opens the storage DB, it closes that DB before it returns;
  a failure of \<open>Close\<close> is logged and nothing else: the return value is the join of
  the waiter's result and the logger's sync error, whatever \<open>Close\<close> answers.
\<close>

theorem db_closed_and_close_error_only_logged:
  assumes "reaches_construction e c"
  shows "length (opened_dbs (trace (snd (exec e ctx (init c))))) = 1 \<and>
    closed_dbs (trace (snd (exec e ctx (init c)))) =
      opened_dbs (trace (snd (exec e ctx (init c)))) \<and>
    logged_errors (trace (snd (exec e ctx (init c)))) =
      (case Close e of None \<Rightarrow> []
       | Some err \<Rightarrow> [(''unable to gracefully close DB'', err)]) \<and>
    fst (exec e ctx (init c)) = errors_Join [wait e, Sync e] \<and>
    fst (exec (e\<lparr>Close := x\<rparr>) ctx (init c)) = fst (exec e ctx (init c))"
proof -
  have "reaches_construction (e\<lparr>Close := x\<rparr>) c"
    using assms by (simp add: reaches_construction_Close)
  then have "fst (exec (e\<lparr>Close := x\<rparr>) ctx (init c)) = errors_Join [wait e, Sync e]"
    using reaches_observed(1) [of "e\<lparr>Close := x\<rparr>" c ctx] by simp
  then show ?thesis
    using reaches_observed(1,3,4,16) [OF assms, of ctx] by simp
qed

theorem db_closed_and_close_error_only_logged_witness:
  "reaches_construction sample_env sample_cfg \<and>
   closed_dbs (trace (snd (exec sample_env 0 (init sample_cfg)))) =
     opened_dbs (trace (snd (exec sample_env 0 (init sample_cfg)))) \<and>
   logged_errors (trace (snd (exec sample_env 0 (init sample_cfg)))) =
     [(''unable to gracefully close DB'', Err ''pebble: closed'')] \<and>
   fst (exec sample_env 0 (init sample_cfg)) = Some (joinError [Err ''context canceled'']) \<and>
   fst (exec (sample_env\<lparr>Close := None\<rparr>) 0 (init sample_cfg)) =
     Some (joinError [Err ''context canceled''])"
  using db_closed_and_close_error_only_logged [OF sample_reaches, of 0 None] sample_reaches
  by (simp add: errors_Join_def sample_env_def)

subsection \<open>The configuration\<close>

text \<open>
  What \<open>registerFlags\<close> leaves behind: the defaults in the configuration and the six
  flags; and a command line that names neither \<open>max-slots\<close> nor \<open>max-chunk-size\<close> keeps
  the two defaults.
\<close>

lemma registerFlags_eq:
  "registerFlags e (zero_startCfg, []) =
     (\<lparr>listenAddress = serve_DefaultListenAddress e, remote = defaultRemote,
       dbPath = defaultDBPath, logLevel = zap_InfoLevel_String e,
       maxSlots = fetch_DefaultMaxSlots e, maxChunkSize = fetch_DefaultMaxChunkSize e\<rparr>,
      [(''listen-address'', \<lambda>v c. Some (c\<lparr>listenAddress := v\<rparr>)),
       (''remote'', \<lambda>v c. Some (c\<lparr>remote := v\<rparr>)),
       (''db-path'', \<lambda>v c. Some (c\<lparr>dbPath := v\<rparr>)),
       (''log-level'', \<lambda>v c. Some (c\<lparr>logLevel := v\<rparr>)),
       (''max-slots'', \<lambda>v c. map_option (\<lambda>n. c\<lparr>maxSlots := n\<rparr>) (ParseInt e v)),
       (''max-chunk-size'', \<lambda>v c. map_option (\<lambda>n. c\<lparr>maxChunkSize := n\<rparr>) (ParseInt e v))])"
  by (simp add: registerFlags_def StringVar_def IntVar_def Int64Var_def zero_startCfg_def)

lemma other_flags_keep_slots_and_chunk_size:
  assumes "map_of (snd (registerFlags e (zero_startCfg, []))) name = Some setter"
    and "name \<noteq> ''max-slots''" and "name \<noteq> ''max-chunk-size''"
    and "setter v c0 = Some c1"
  shows "maxSlots c1 = maxSlots c0 \<and> maxChunkSize c1 = maxChunkSize c0"
  using assms by (auto simp: registerFlags_eq split: if_splits)

lemma Parse_keeps_slots_and_chunk_size:
  assumes "Parse (snd (registerFlags e (zero_startCfg, []))) args c0 = Some c"
    and "''max-slots'' \<notin> fst ` set args"
    and "''max-chunk-size'' \<notin> fst ` set args"
  shows "maxSlots c = maxSlots c0 \<and> maxChunkSize c = maxChunkSize c0"
  using assms
proof (induction args arbitrary: c0)
  case Nil
  then show ?case by simp
next
  case (Cons a args)
  obtain name v where a: "a = (name, v)" by (cases a)
  from Cons.prems(1) a obtain setter c1 where
    setter: "map_of (snd (registerFlags e (zero_startCfg, []))) name = Some setter"
    and c1: "setter v c0 = Some c1"
    and rest: "Parse (snd (registerFlags e (zero_startCfg, []))) args c1 = Some c"
    by (auto split: option.splits)
  from Cons.prems(2,3) a have "name \<noteq> ''max-slots''" and "name \<noteq> ''max-chunk-size''"
    by auto
  from other_flags_keep_slots_and_chunk_size [OF setter this c1]
  have step: "maxSlots c1 = maxSlots c0 \<and> maxChunkSize c1 = maxChunkSize c0" .
  from Cons.prems(2,3) have "''max-slots'' \<notin> fst ` set args"
    and "''max-chunk-size'' \<notin> fst ` set args" by auto
  from Cons.IH [OF rest this] step show ?case by simp
qed

lemma sample_ParseInt_0: "sample_ParseInt ''0'' = Some 0"
  by (simp add: sample_ParseInt_def digit_def)

lemma sample_ParseInt_minus_5: "sample_ParseInt ''-5'' = Some (- 5)"
  by (simp add: sample_ParseInt_def digit_def)

lemma sample_parsed_cfg:
  "parsed_cfg sample_env [(''max-slots'', ''0''), (''max-chunk-size'', ''-5'')] =
     Some (sample_cfg\<lparr>maxSlots := 0, maxChunkSize := - 5\<rparr>)"
  by (simp add: parsed_cfg_def registerFlags_eq sample_env_def sample_cfg_def
      sample_ParseInt_0 sample_ParseInt_minus_5 defaultRemote_def defaultDBPath_def)

lemma sample_reaches_nonpositive:
  "reaches_construction sample_env (sample_cfg\<lparr>maxSlots := 0, maxChunkSize := - 5\<rparr>)"
  by (simp add: reaches_construction_def sample_env_def sample_cfg_def
      sample_ParseAtomicLevel_def)

lemma sample_parsed_cfg_log_level:
  "parsed_cfg sample_env [(''log-level'', ''debug'')] = Some (sample_cfg\<lparr>logLevel := ''debug''\<rparr>)"
  by (simp add: parsed_cfg_def registerFlags_eq sample_env_def sample_cfg_def
      defaultRemote_def defaultDBPath_def)

lemma sample_reaches_debug:
  "reaches_construction sample_env (sample_cfg\<lparr>logLevel := ''debug''\<rparr>)"
  by (simp add: reaches_construction_def sample_env_def sample_cfg_def
      sample_ParseAtomicLevel_def)

text \<open>
  Claim C4 says that \<open>exec\<close> never reaches \<open>fetch.New\<close> with a worker count or a max
  chunk size that is not positive. Nothing checks the two flags: the command line
  \<open>-max-slots=0 -max-chunk-size=-5\<close> parses, and both values reach \<open>fetch.New\<close>.
\<close>

theorem nonpositive_sizes_reach_fetch_New:
  "map_option
     (\<lambda>r. (max_slots_passed (trace (snd r)), max_chunk_sizes_passed (trace (snd r))))
     (newStartCmd sample_env 0 [(''max-slots'', ''0''), (''max-chunk-size'', ''-5'')]) =
     Some ([0], [- 5]) \<and>
   sint (0 :: go_int) = 0 \<and> sint (- 5 :: int64) = - 5"
  using reaches_observed(11,12) [OF sample_reaches_nonpositive, of 0]
  by (simp add: newStartCmd_def sample_parsed_cfg)

text \<open>
  Claim C4, as amended: \<open>exec\<close> does not validate the worker count or the max chunk
  size; a run that builds the pipeline hands \<open>fetch.New\<close> the configured \<open>maxSlots\<close> and
  \<open>maxChunkSize\<close> as they are, so the values that reach \<open>fetch.New\<close> are positive exactly
  when the configured ones are.
\<close>

theorem sizes_passed_unchecked:
  assumes "reaches_construction e c"
  shows "max_slots_passed (trace (snd (exec e ctx (init c)))) = [maxSlots c] \<and>
    max_chunk_sizes_passed (trace (snd (exec e ctx (init c)))) = [maxChunkSize c] \<and>
    list_all (\<lambda>n. 0 < sint n) (max_slots_passed (trace (snd (exec e ctx (init c))))) =
      (0 < sint (maxSlots c)) \<and>
    list_all (\<lambda>n. 0 < sint n) (max_chunk_sizes_passed (trace (snd (exec e ctx (init c))))) =
      (0 < sint (maxChunkSize c))"
  using reaches_observed(11,12) [OF assms, of ctx] by simp

theorem sizes_passed_unchecked_witness:
  "reaches_construction sample_env sample_cfg \<and>
   max_slots_passed (trace (snd (exec sample_env 0 (init sample_cfg)))) = [100] \<and>
   max_chunk_sizes_passed (trace (snd (exec sample_env 0 (init sample_cfg)))) = [100]"
  using sizes_passed_unchecked [OF sample_reaches, of 0] sample_reaches
  by (simp add: sample_cfg_def)

text \<open>
  Claim C5: a command line that supplies neither \<open>max-slots\<close> nor \<open>max-chunk-size\<close>
  leaves \<open>fetch.DefaultMaxSlots\<close> and \<open>fetch.DefaultMaxChunkSize\<close> in the configuration,
  and these are the values \<open>exec\<close> hands to \<open>fetch.New\<close> when it builds the pipeline.
\<close>

theorem defaults_when_flags_absent:
  assumes "parsed_cfg e args = Some c"
    and "''max-slots'' \<notin> fst ` set args"
    and "''max-chunk-size'' \<notin> fst ` set args"
  shows "maxSlots c = fetch_DefaultMaxSlots e \<and>
    maxChunkSize c = fetch_DefaultMaxChunkSize e \<and>
    (if reaches_construction e c
     then max_slots_passed (trace (snd (exec e ctx (init c)))) = [fetch_DefaultMaxSlots e] \<and>
          max_chunk_sizes_passed (trace (snd (exec e ctx (init c)))) =
            [fetch_DefaultMaxChunkSize e]
     else max_slots_passed (trace (snd (exec e ctx (init c)))) = [] \<and>
          max_chunk_sizes_passed (trace (snd (exec e ctx (init c)))) = [])"
proof -
  from assms(1) have
    "Parse (snd (registerFlags e (zero_startCfg, []))) args
       (fst (registerFlags e (zero_startCfg, []))) = Some c"
    by (simp add: parsed_cfg_def split: prod.splits)
  from Parse_keeps_slots_and_chunk_size [OF this assms(2,3)]
  have "maxSlots c = fetch_DefaultMaxSlots e \<and> maxChunkSize c = fetch_DefaultMaxChunkSize e"
    by (simp add: registerFlags_eq)
  then show ?thesis
    using reaches_observed(11,12) [of e c ctx] stops_early(9,10) [of e c ctx]
    by (cases "reaches_construction e c") simp_all
qed

theorem defaults_when_flags_absent_witness:
  "parsed_cfg sample_env [(''log-level'', ''debug'')] =
     Some (sample_cfg\<lparr>logLevel := ''debug''\<rparr>) \<and>
   ''max-slots'' \<notin> fst ` set [(''log-level'', ''debug'')] \<and>
   ''max-chunk-size'' \<notin> fst ` set [(''log-level'', ''debug'')] \<and>
   maxSlots (sample_cfg\<lparr>logLevel := ''debug''\<rparr>) = 100 \<and>
   maxChunkSize (sample_cfg\<lparr>logLevel := ''debug''\<rparr>) = 100 \<and>
   max_slots_passed
     (trace (snd (exec sample_env 0 (init (sample_cfg\<lparr>logLevel := ''debug''\<rparr>))))) = [100] \<and>
   max_chunk_sizes_passed
     (trace (snd (exec sample_env 0 (init (sample_cfg\<lparr>logLevel := ''debug''\<rparr>))))) = [100]"
  using defaults_when_flags_absent [OF sample_parsed_cfg_log_level, of 0]
    sample_parsed_cfg_log_level sample_reaches_debug
  by (simp add: sample_env_def)

text \<open>
  Claim C6: \<open>exec\<close> never writes a field of its \<open>startCfg\<close>: the configuration after
  the run is the configuration before it, and each value goes to the pipeline or to the
  JSON-RPC service once, at construction (and not at all in a run that stops early).
\<close>

theorem cfg_not_mutated:
  "recv (snd (exec e ctx (init c))) = c \<and>
   (if reaches_construction e c
    then max_slots_passed (trace (snd (exec e ctx (init c)))) = [maxSlots c] \<and>
         max_chunk_sizes_passed (trace (snd (exec e ctx (init c)))) = [maxChunkSize c] \<and>
         map fst (clients (trace (snd (exec e ctx (init c))))) = [remote c] \<and>
         listen_addresses_passed (trace (snd (exec e ctx (init c)))) = [listenAddress c]
    else max_slots_passed (trace (snd (exec e ctx (init c)))) = [] \<and>
         max_chunk_sizes_passed (trace (snd (exec e ctx (init c)))) = [] \<and>
         clients (trace (snd (exec e ctx (init c)))) = [] \<and>
         listen_addresses_passed (trace (snd (exec e ctx (init c)))) = [])"
  using reaches_observed(2,8,11,12,13) [of e c ctx] stops_early(2,8,9,10,11) [of e c ctx]
  by (cases "reaches_construction e c") simp_all

theorem cfg_not_mutated_witness:
  "recv (snd (exec sample_env 0 (init sample_cfg))) = sample_cfg \<and>
   max_slots_passed (trace (snd (exec sample_env 0 (init sample_cfg)))) = [100] \<and>
   max_chunk_sizes_passed (trace (snd (exec sample_env 0 (init sample_cfg)))) = [100] \<and>
   map fst (clients (trace (snd (exec sample_env 0 (init sample_cfg))))) =
     [''http://127.0.0.1:26657''] \<and>
   listen_addresses_passed (trace (snd (exec sample_env 0 (init sample_cfg)))) =
     [''0.0.0.0:8546'']"
  using cfg_not_mutated [of sample_env 0 sample_cfg] sample_reaches
  by (simp add: sample_cfg_def)

end
